theory Spec2Isabelle
  imports Main
begin

section \<open>JavaScript values\<close>

text \<open>
  The script \<^verbatim>\<open>getTitlesFromUrls.js\<close> handles strings, arrays and plain objects and
  tells failure from success by \<^verbatim>\<open>null\<close> and by truthiness. Values are modelled by
  the datatype below; an object is its list of own properties in insertion order.
  A string is its list of code units, restricted to the range 0..255.
\<close>

datatype jsval =
    JUndefined
  | JNull
  | JBool bool
  | JNum int
  | JStr string
  | JArr "jsval list"
  | JObj "(string \<times> jsval) list"

text \<open>
  A thrown value. \<open>TypeError p\<close> is the error the engine raises when property \<open>p\<close>
  is read from \<^verbatim>\<open>undefined\<close> or \<^verbatim>\<open>null\<close>, or when the value read as \<open>p\<close> is called
  although it is not a function. \<open>LibraryError m\<close> is an error with message \<open>m\<close> raised or
  rejected by one of the libraries (axios, xml2js, cheerio, fs, csv-writer).
\<close>

datatype js_error = TypeError string | LibraryError string

text \<open>The conversion to boolean that \<^verbatim>\<open>if (x)\<close> and \<^verbatim>\<open>!x\<close> perform.\<close>

fun truthy :: "jsval \<Rightarrow> bool" where
  "truthy JUndefined = False"
| "truthy JNull = False"
| "truthy (JBool b) = b"
| "truthy (JNum n) = (n \<noteq> 0)"
| "truthy (JStr s) = (s \<noteq> [])"
| "truthy (JArr xs) = True"
| "truthy (JObj kvs) = True"

text \<open>
  \<^verbatim>\<open>v.p\<close> for a property name \<open>p\<close> that is not a built-in member (the script reads
  \<^verbatim>\<open>urlset\<close>, \<^verbatim>\<open>url\<close> and \<^verbatim>\<open>loc\<close>): reading from \<^verbatim>\<open>undefined\<close> or \<^verbatim>\<open>null\<close>
  throws, an object yields its own property or \<^verbatim>\<open>undefined\<close>, every other value yields
  \<^verbatim>\<open>undefined\<close>.
\<close>

fun get_prop :: "jsval \<Rightarrow> string \<Rightarrow> js_error + jsval" where
  "get_prop JUndefined p = Inl (TypeError p)"
| "get_prop JNull p = Inl (TypeError p)"
| "get_prop (JObj kvs) p = Inr (case map_of kvs p of Some v \<Rightarrow> v | None \<Rightarrow> JUndefined)"
| "get_prop v p = Inr JUndefined"

text \<open>Decimal notation of a natural number, as \<^verbatim>\<open>toString()\<close> and template literals give it.\<close>

definition digit :: "nat \<Rightarrow> char" where
  "digit d = ''0123456789'' ! d"

fun dec :: "nat \<Rightarrow> string" where
  "dec n = (if n < 10 then [digit n] else dec (n div 10) @ [digit (n mod 10)])"

declare dec.simps [simp del]

text \<open>\<^verbatim>\<open>xs[i]\<close> on an array: the element, or \<^verbatim>\<open>undefined\<close> beyond the end.\<close>

definition array_index :: "jsval list \<Rightarrow> nat \<Rightarrow> jsval" where
  "array_index xs i = (if i < length xs then xs ! i else JUndefined)"

text \<open>\<^verbatim>\<open>v[i]\<close> for a non-negative integer \<open>i\<close>.\<close>

fun get_index :: "jsval \<Rightarrow> nat \<Rightarrow> js_error + jsval" where
  "get_index JUndefined i = Inl (TypeError (dec i))"
| "get_index JNull i = Inl (TypeError (dec i))"
| "get_index (JArr xs) i = Inr (array_index xs i)"
| "get_index (JStr s) i = Inr (if i < length s then JStr [s ! i] else JUndefined)"
| "get_index (JObj kvs) i = Inr (case map_of kvs (dec i) of Some v \<Rightarrow> v | None \<Rightarrow> JUndefined)"
| "get_index v i = Inr JUndefined"

text \<open>
  \<^verbatim>\<open>Array.prototype.map\<close> with a callback that may throw: elements are visited from
  left to right and the first exception ends the traversal.
\<close>

fun map_throwing :: "(jsval \<Rightarrow> js_error + jsval) \<Rightarrow> jsval list \<Rightarrow> js_error + jsval list" where
  "map_throwing f [] = Inr []"
| "map_throwing f (x # xs) =
     (case f x of
        Inl e \<Rightarrow> Inl e
      | Inr y \<Rightarrow> (case map_throwing f xs of Inl e \<Rightarrow> Inl e | Inr ys \<Rightarrow> Inr (y # ys)))"

text \<open>
  \<^verbatim>\<open>v.map(f)\<close>: only an array has the method. On \<^verbatim>\<open>undefined\<close> and \<^verbatim>\<open>null\<close> the
  property read throws; on any other value \<^verbatim>\<open>v.map\<close> is not a function, and calling it
  throws as well.
\<close>

fun call_map :: "jsval \<Rightarrow> (jsval \<Rightarrow> js_error + jsval) \<Rightarrow> js_error + jsval" where
  "call_map (JArr xs) f = (case map_throwing f xs of Inl e \<Rightarrow> Inl e | Inr ys \<Rightarrow> Inr (JArr ys))"
| "call_map v f = Inl (TypeError ''map'')"

text \<open>
  White space in the sense of \<^verbatim>\<open>String.prototype.trim\<close> and of the regular
  expression class \<^verbatim>\<open>\s\<close>, among the code units 0..255: tab, line feed, vertical tab,
  form feed, carriage return, space and no-break space.
\<close>

definition js_whitespace :: "char \<Rightarrow> bool" where
  "js_whitespace c \<longleftrightarrow>
     c = CHR 0x09 \<or> c = CHR 0x0A \<or> c = CHR 0x0B \<or> c = CHR 0x0C \<or> c = CHR 0x0D
     \<or> c = CHR 0x20 \<or> c = CHR 0xA0"

definition js_trim :: "string \<Rightarrow> string" where
  "js_trim s = rev (dropWhile js_whitespace (rev (dropWhile js_whitespace s)))"

text \<open>\<^verbatim>\<open>s.padStart(n, '0')\<close>.\<close>

definition padStart :: "nat \<Rightarrow> string \<Rightarrow> string" where
  "padStart n s = replicate (n - length s) (CHR ''0'') @ s"


section \<open>What the libraries return\<close>

subsection \<open>xml2js\<close>

text \<open>
  An XML document as its element tree: an element has a tag name, attributes and a content
  of text nodes and child elements in document order.
\<close>

datatype xml_element =
    Element (tag: string) (attributes: "(string \<times> string) list") (content: "xml_node list")
and xml_node = Text string | Child xml_element

text \<open>
  The value that xml2js (default options: \<^verbatim>\<open>explicitArray\<close>, \<^verbatim>\<open>explicitRoot\<close>,
  attribute key \<^verbatim>\<open>$\<close>, character key \<^verbatim>\<open>_\<close>, empty tag \<^verbatim>\<open>''\<close>, no trimming)
  builds for a well-formed document whose element names differ from the character key.
  A closed child is stored in its parent under its tag name: a new key receives a
  one-element array, an existing key has the value appended. A key therefore exists only
  when at least one child of that name exists; there are no empty arrays.
\<close>

fun assignOrPush :: "(string \<times> jsval) list \<Rightarrow> string \<Rightarrow> jsval \<Rightarrow> (string \<times> jsval) list" where
  "assignOrPush [] key v = [(key, JArr [v])]"
| "assignOrPush ((k, x) # obj) key v =
     (if k = key
      then (k, (case x of JArr xs \<Rightarrow> JArr (xs @ [v]) | _ \<Rightarrow> JArr [x, v])) # obj
      else (k, x) # assignOrPush obj key v)"

fun characters :: "xml_node list \<Rightarrow> string" where
  "characters [] = []"
| "characters (Text t # ns) = t @ characters ns"
| "characters (Child e # ns) = characters ns"

text \<open>
  When an element closes: text that is only white space is dropped, other text is kept
  under the character key; an element with neither attributes nor children becomes its
  text, a string (the empty string for an empty element).
\<close>

definition close_tag :: "string \<Rightarrow> (string \<times> jsval) list \<Rightarrow> jsval" where
  "close_tag text obj =
     (if obj = [] then JStr text
      else if list_all js_whitespace text then JObj obj
      else JObj ((''_'', JStr text) # obj))"

definition open_tag :: "(string \<times> string) list \<Rightarrow> (string \<times> jsval) list" where
  "open_tag attrs = (if attrs = [] then [] else [(''$'', JObj (map (\<lambda>(k, v). (k, JStr v)) attrs))])"

fun xml2js_element :: "xml_element \<Rightarrow> jsval"
and xml2js_content :: "xml_node list \<Rightarrow> (string \<times> jsval) list \<Rightarrow> (string \<times> jsval) list" where
  "xml2js_element (Element name attrs nodes) =
     close_tag (characters nodes) (xml2js_content nodes (open_tag attrs))"
| "xml2js_content [] obj = obj"
| "xml2js_content (Text t # ns) obj = xml2js_content ns obj"
| "xml2js_content (Child e # ns) obj =
     xml2js_content ns (assignOrPush obj (tag e) (xml2js_element e))"

definition xml2js_document :: "xml_element \<Rightarrow> jsval" where
  "xml2js_document root = JObj [(tag root, xml2js_element root)]"

subsection \<open>cheerio\<close>

text \<open>
  The document that \<^verbatim>\<open>cheerio.load\<close> builds, as the list of the nodes at its top level.
\<close>

datatype dom =
    DText string
  | DComment string
  | DElem string "(string \<times> string) list" "dom list"

text \<open>\<^verbatim>\<open>$('title')\<close>: every element of that name in the document, in document order.\<close>

fun select_tag :: "string \<Rightarrow> dom \<Rightarrow> dom list" where
  "select_tag t (DText s) = []"
| "select_tag t (DComment s) = []"
| "select_tag t (DElem name attrs children) =
     (if name = t then [DElem name attrs children] else []) @ concat (map (select_tag t) children)"

definition cheerio_select :: "dom list \<Rightarrow> string \<Rightarrow> dom list" where
  "cheerio_select document t = concat (map (select_tag t) document)"

text \<open>
  \<^verbatim>\<open>.text()\<close>: the combined text contents of each element in the set of matched
  elements, including their descendants; the empty string for an empty set.
\<close>

fun textContent :: "dom \<Rightarrow> string" where
  "textContent (DText s) = s"
| "textContent (DComment s) = []"
| "textContent (DElem name attrs children) = concat (map textContent children)"

definition cheerio_text :: "dom list \<Rightarrow> string" where
  "cheerio_text selection = concat (map textContent selection)"

section \<open>The environment and the observable effects of a run\<close>

type_synonym path = "string list"

record date =
  getFullYear :: nat
  getMonth :: nat
  getDate :: nat
  getHours :: nat
  getMinutes :: nat

text \<open>
  Everything the script obtains from outside. The outcome of an HTTP request may depend on
  when it is made, so \<open>axios_get\<close> takes the number of requests made before it; it yields
  \<^verbatim>\<open>response.data\<close>, or the error axios rejects with (network error, timeout, status
  outside 2xx). \<open>parseStringPromise\<close> and \<open>cheerio_load\<close> are the parsers of xml2js and
  cheerio. The last two fields say which file-system operations fail.
\<close>

record env =
  argv :: "jsval list"
  axios_get :: "nat \<Rightarrow> jsval \<Rightarrow> js_error + jsval"
  parseStringPromise :: "jsval \<Rightarrow> js_error + jsval"
  cheerio_load :: "jsval \<Rightarrow> js_error + dom list"
  now :: date
  dirname :: path
  mkdirSync_error :: "path \<Rightarrow> js_error option"
  writeRecords_error :: "path \<Rightarrow> js_error option"

text \<open>
  A console line is the sequence of its literal text and interpolated values; the
  conversion of an interpolated value to text is not modelled, and is taken not to throw.
\<close>

datatype part = Lit string | Val jsval | Path "string list" | Message js_error | Err js_error

datatype console_call = Console_error "part list" | Console_log "part list"

text \<open>
  What csv-writer is given for one file: the column titles, and per record the values of
  the columns in header order.
\<close>

record csv =
  header :: "string list"
  rows :: "jsval list list"

text \<open>
  The effects of a run: the console calls and the HTTP requests in the order they were
  made, the directories that exist and the files written.
\<close>

record world =
  console :: "console_call list"
  requests :: "jsval list"
  directories :: "path list"
  files :: "path \<rightharpoonup> csv"

definition console_error :: "part list \<Rightarrow> world \<Rightarrow> world" where
  "console_error line w = w\<lparr>console := console w @ [Console_error line]\<rparr>"

definition console_log :: "part list \<Rightarrow> world \<Rightarrow> world" where
  "console_log line w = w\<lparr>console := console w @ [Console_log line]\<rparr>"

text \<open>\<^verbatim>\<open>await axios.get(url)\<close>, then \<^verbatim>\<open>response.data\<close>.\<close>

definition axios_get_data :: "env \<Rightarrow> jsval \<Rightarrow> world \<Rightarrow> (js_error + jsval) \<times> world" where
  "axios_get_data env url w =
     (axios_get env (length (requests w)) url, w\<lparr>requests := requests w @ [url]\<rparr>)"

section \<open>The script\<close>

definition fetchSitemapXml :: "env \<Rightarrow> jsval \<Rightarrow> world \<Rightarrow> jsval \<times> world" where
  "fetchSitemapXml env url w =
     (case axios_get_data env url w of
        (Inr data, w') \<Rightarrow> (data, w')
      | (Inl error, w') \<Rightarrow>
          (JNull, console_error [Lit ''Error fetching sitemap.xml from '', Val url, Lit '': '',
                                 Message error] w'))"

text \<open>The callback \<^verbatim>\<open>url => url.loc[0]\<close>.\<close>

definition loc0 :: "jsval \<Rightarrow> js_error + jsval" where
  "loc0 url = (case get_prop url ''loc'' of Inl e \<Rightarrow> Inl e | Inr loc \<Rightarrow> get_index loc 0)"

text \<open>\<^verbatim>\<open>parsedData.urlset.url.map(url => url.loc[0])\<close>.\<close>

definition urlArray :: "jsval \<Rightarrow> js_error + jsval" where
  "urlArray parsedData =
     (case get_prop parsedData ''urlset'' of
        Inl e \<Rightarrow> Inl e
      | Inr urlset \<Rightarrow>
          (case get_prop urlset ''url'' of
             Inl e \<Rightarrow> Inl e
           | Inr urls \<Rightarrow> call_map urls loc0))"

definition parseSitemapXml :: "env \<Rightarrow> jsval \<Rightarrow> world \<Rightarrow> jsval \<times> world" where
  "parseSitemapXml env xmlContent w =
     (case (case parseStringPromise env xmlContent of
              Inl e \<Rightarrow> Inl e
            | Inr parsedData \<Rightarrow> urlArray parsedData) of
        Inr urls \<Rightarrow> (urls, w)
      | Inl error \<Rightarrow>
          (JNull, console_error [Lit ''Error parsing sitemap.xml content: '', Message error] w))"

definition getPageTitle :: "env \<Rightarrow> jsval \<Rightarrow> world \<Rightarrow> jsval \<times> world" where
  "getPageTitle env url w =
     (case axios_get_data env url w of
        (response, w') \<Rightarrow>
          (case (case response of
                   Inl e \<Rightarrow> Inl e
                 | Inr data \<Rightarrow>
                     (case cheerio_load env data of
                        Inl e \<Rightarrow> Inl e
                      | Inr document \<Rightarrow>
                          Inr (JStr (js_trim (cheerio_text (cheerio_select document ''title'')))))) of
             Inr pageTitle \<Rightarrow> (pageTitle, w')
           | Inl error \<Rightarrow>
               (JNull, console_error [Lit ''Error fetching page title from '', Val url, Lit '': '',
                                      Message error] w')))"

text \<open>The object \<^verbatim>\<open>{ url, pageTitle }\<close>.\<close>

record title_record =
  url :: jsval
  pageTitle :: jsval

text \<open>The body of the \<^verbatim>\<open>for\<close> loop of \<^verbatim>\<open>processUrls\<close>, over the URLs still to visit.\<close>

fun processUrls_loop ::
  "env \<Rightarrow> jsval list \<Rightarrow> title_record list \<Rightarrow> world \<Rightarrow> title_record list \<times> world" where
  "processUrls_loop env [] titles w = (titles, w)"
| "processUrls_loop env (u # urls) titles w =
     (case getPageTitle env u w of
        (t, w') \<Rightarrow>
          processUrls_loop env urls
            (if truthy t then titles @ [\<lparr>url = u, pageTitle = t\<rparr>] else titles) w')"

text \<open>
  \<^verbatim>\<open>for (const url of urls)\<close> iterates an array by element and a string by character;
  a value that is not iterable throws.
\<close>

fun iterate :: "jsval \<Rightarrow> js_error + jsval list" where
  "iterate (JArr xs) = Inr xs"
| "iterate (JStr s) = Inr (map (\<lambda>c. JStr [c]) s)"
| "iterate v = Inl (TypeError ''Symbol.iterator'')"

definition processUrls :: "env \<Rightarrow> jsval \<Rightarrow> world \<Rightarrow> (js_error + title_record list) \<times> world" where
  "processUrls env urls w =
     (case iterate urls of
        Inl e \<Rightarrow> (Inl e, w)
      | Inr us \<Rightarrow> (case processUrls_loop env us [] w of (titles, w') \<Rightarrow> (Inr titles, w')))"

text \<open>The timestamp \<^verbatim>\<open>YYYYMMDD-HHmm\<close> of the output file.\<close>

definition timestamp :: "date \<Rightarrow> string" where
  "timestamp d =
     dec (getFullYear d) @ padStart 2 (dec (getMonth d + 1)) @ padStart 2 (dec (getDate d))
     @ ''-'' @ padStart 2 (dec (getHours d)) @ padStart 2 (dec (getMinutes d))"

text \<open>\<^verbatim>\<open>path.join(dir, name)\<close> on paths given as their lists of segments.\<close>

definition path_join :: "path \<Rightarrow> string \<Rightarrow> path" where
  "path_join dir name = dir @ [name]"

definition existsSync :: "path \<Rightarrow> world \<Rightarrow> bool" where
  "existsSync p w \<longleftrightarrow> p \<in> set (directories w) \<or> files w p \<noteq> None"

text \<open>A file-system operation that fails is taken to leave no trace.\<close>

definition mkdirSync :: "env \<Rightarrow> path \<Rightarrow> world \<Rightarrow> js_error option \<times> world" where
  "mkdirSync env p w =
     (case mkdirSync_error env p of
        Some e \<Rightarrow> (Some e, w)
      | None \<Rightarrow> (None, w\<lparr>directories := p # directories w\<rparr>))"

text \<open>
  The writer made by \<^verbatim>\<open>createObjectCsvWriter\<close> with the columns \<^verbatim>\<open>pageTitle\<close>
  (title \<^verbatim>\<open>Page Title\<close>) and \<^verbatim>\<open>url\<close> (title \<^verbatim>\<open>URL\<close>): \<^verbatim>\<open>writeRecords\<close> replaces the
  file at the path by the header and one row per record.
\<close>

definition csv_header :: "string list" where
  "csv_header = [''Page Title'', ''URL'']"

definition csv_row :: "title_record \<Rightarrow> jsval list" where
  "csv_row r = [pageTitle r, url r]"

definition writeRecords ::
  "env \<Rightarrow> path \<Rightarrow> title_record list \<Rightarrow> world \<Rightarrow> js_error option \<times> world" where
  "writeRecords env p titles w =
     (case writeRecords_error env p of
        Some e \<Rightarrow> (Some e, w)
      | None \<Rightarrow>
          (None, w\<lparr>files := (files w)(p \<mapsto> \<lparr>header = csv_header, rows = map csv_row titles\<rparr>)\<rparr>))"

definition outputDir :: "env \<Rightarrow> path" where
  "outputDir env = path_join (dirname env) ''output''"

definition outputPath :: "env \<Rightarrow> path" where
  "outputPath env = path_join (outputDir env) (''page-titles-'' @ timestamp (now env) @ ''.csv'')"

text \<open>
  Lines 108 to 131 of the top-level function, the export of the collected titles: the
  exception that ends it, if any, and the effects up to there.
\<close>

definition export :: "env \<Rightarrow> title_record list \<Rightarrow> world \<Rightarrow> js_error option \<times> world" where
  "export env titles w =
     (case (if \<not> existsSync (outputDir env) w then mkdirSync env (outputDir env) w
            else (None, w)) of
        (Some e, w1) \<Rightarrow> (Some e, w1)
      | (None, w1) \<Rightarrow>
          (case writeRecords env (outputPath env) titles w1 of
             (Some e, w2) \<Rightarrow> (Some e, w2)
           | (None, w2) \<Rightarrow>
               (None, console_log [Lit ''Page titles extracted and saved to '',
                                   Path (outputPath env)] w2)))"

text \<open>
  The top-level function. An exception of the stages after the three early returns is
  caught by the outer \<^verbatim>\<open>catch\<close> and printed.
\<close>

definition main :: "env \<Rightarrow> world \<Rightarrow> world" where
  "main env w =
     (let sitemapUrl = array_index (argv env) 2 in
      if \<not> truthy sitemapUrl
      then console_error [Lit ''Please provide a sitemap.xml URL as a command-line argument.''] w
      else
        (case fetchSitemapXml env sitemapUrl w of
           (sitemapXml, w1) \<Rightarrow>
             if \<not> truthy sitemapXml
             then console_error
                    [Lit ''Could not fetch sitemap.xml content from the provided URL.''] w1
             else
               (case parseSitemapXml env sitemapXml w1 of
                  (urls, w2) \<Rightarrow>
                    if \<not> truthy urls
                    then console_error
                           [Lit ''No valid URLs found in the sitemap.xml content.''] w2
                    else
                      (case processUrls env urls w2 of
                         (Inl error, w3) \<Rightarrow>
                           console_error [Lit ''An error occurred:'', Err error] w3
                       | (Inr titles, w3) \<Rightarrow>
                           (case export env titles w3 of
                              (Some error, w4) \<Rightarrow>
                                console_error [Lit ''An error occurred:'', Err error] w4
                            | (None, w4) \<Rightarrow> w4)))))"

section \<open>Notions used in the statements\<close>

subsection \<open>Sitemap documents\<close>

fun child_elements :: "xml_node list \<Rightarrow> xml_element list" where
  "child_elements [] = []"
| "child_elements (Text t # ns) = child_elements ns"
| "child_elements (Child e # ns) = e # child_elements ns"

definition children_named :: "string \<Rightarrow> xml_element \<Rightarrow> xml_element list" where
  "children_named name e = filter (\<lambda>c. tag c = name) (child_elements (content e))"

text \<open>The \<^verbatim>\<open>url\<close> entries of a sitemap, in document order.\<close>

definition url_entries :: "xml_element \<Rightarrow> xml_element list" where
  "url_entries doc = children_named ''url'' doc"

text \<open>An element that holds text only: no attributes, no child elements.\<close>

definition text_only :: "xml_element \<Rightarrow> bool" where
  "text_only e \<longleftrightarrow> attributes e = [] \<and> child_elements (content e) = []"

text \<open>
  A valid sitemap: a root \<^verbatim>\<open>urlset\<close> element containing zero or more \<^verbatim>\<open>url\<close>
  children, each with exactly one \<^verbatim>\<open>loc\<close> child holding the URL text.
\<close>

definition valid_url_entry :: "xml_element \<Rightarrow> bool" where
  "valid_url_entry u = (case children_named ''loc'' u of [l] \<Rightarrow> text_only l | _ \<Rightarrow> False)"

definition valid_sitemap :: "xml_element \<Rightarrow> bool" where
  "valid_sitemap doc \<longleftrightarrow> tag doc = ''urlset'' \<and> list_all valid_url_entry (url_entries doc)"

text \<open>The URL text of a \<^verbatim>\<open>url\<close> entry: the text of its first \<^verbatim>\<open>loc\<close> child.\<close>

definition loc_text :: "xml_element \<Rightarrow> string" where
  "loc_text u = (case children_named ''loc'' u of l # _ \<Rightarrow> characters (content l) | [] \<Rightarrow> [])"

text \<open>What \<^verbatim>\<open>assignOrPush\<close> finds under a key before it appends.\<close>

definition pushed :: "jsval option \<Rightarrow> jsval list" where
  "pushed old = (case old of None \<Rightarrow> [] | Some (JArr xs) \<Rightarrow> xs | Some x \<Rightarrow> [x])"

subsection \<open>Pages and runs\<close>

text \<open>\<^verbatim>\<open>process.argv[2]\<close>, the sitemap URL of a run.\<close>

definition sitemapUrl :: "env \<Rightarrow> jsval" where
  "sitemapUrl env = array_index (argv env) 2"

text \<open>
  The outcome of request number \<open>k\<close> for the page at \<open>u\<close>, in terms of the environment
  alone: the error of the fetch or of the HTML parser, or else the trimmed text that
  cheerio gives for the selection \<^verbatim>\<open>title\<close>.
\<close>

definition page_title :: "env \<Rightarrow> nat \<Rightarrow> jsval \<Rightarrow> js_error + string" where
  "page_title env k u =
     (case axios_get env k u of
        Inl e \<Rightarrow> Inl e
      | Inr data \<Rightarrow>
          (case cheerio_load env data of
             Inl e \<Rightarrow> Inl e
           | Inr document \<Rightarrow> Inr (js_trim (cheerio_text (cheerio_select document ''title'')))))"

text \<open>The fetch of the page failed.\<close>

definition page_fetch_failed :: "env \<Rightarrow> nat \<times> jsval \<Rightarrow> bool" where
  "page_fetch_failed env = (\<lambda>(k, u). case axios_get env k u of Inl e \<Rightarrow> True | Inr data \<Rightarrow> False)"

text \<open>The page was fetched and parsed, and the title extracted from it is not empty.\<close>

definition title_obtained :: "env \<Rightarrow> nat \<times> jsval \<Rightarrow> bool" where
  "title_obtained env = (\<lambda>(k, u). case page_title env k u of Inl e \<Rightarrow> False | Inr t \<Rightarrow> t \<noteq> [])"

definition title_text :: "env \<Rightarrow> nat \<times> jsval \<Rightarrow> string" where
  "title_text env = (\<lambda>(k, u). case page_title env k u of Inl e \<Rightarrow> [] | Inr t \<Rightarrow> t)"

text \<open>The record and the CSV row of a page: page title first, URL second.\<close>

definition record_of :: "env \<Rightarrow> nat \<times> jsval \<Rightarrow> title_record" where
  "record_of env p = \<lparr>url = snd p, pageTitle = JStr (title_text env p)\<rparr>"

definition row_of :: "env \<Rightarrow> nat \<times> jsval \<Rightarrow> jsval list" where
  "row_of env p = [JStr (title_text env p), snd p]"

text \<open>The line that \<^verbatim>\<open>getPageTitle\<close> prints for a page whose fetch or parse failed.\<close>

definition page_error :: "env \<Rightarrow> nat \<times> jsval \<Rightarrow> console_call option" where
  "page_error env = (\<lambda>(k, u).
     case page_title env k u of
       Inl e \<Rightarrow> Some (Console_error [Lit ''Error fetching page title from '', Val u, Lit '': '',
                                     Message e])
     | Inr t \<Rightarrow> None)"

text \<open>
  Title extraction in the words of the specification: it fails on a fetch failure or on the
  absence of a \<^verbatim>\<open>title\<close> element, and succeeds otherwise, possibly with the empty string.
\<close>

definition extraction_succeeded :: "env \<Rightarrow> nat \<times> jsval \<Rightarrow> bool" where
  "extraction_succeeded env = (\<lambda>(k, u).
     case axios_get env k u of
       Inl e \<Rightarrow> False
     | Inr data \<Rightarrow>
         (case cheerio_load env data of
            Inl e \<Rightarrow> False
          | Inr document \<Rightarrow> cheerio_select document ''title'' \<noteq> []))"

text \<open>
  A run started in world \<open>w\<close> reaches the export stage with the URL array \<open>us\<close>: a sitemap
  URL is given, its fetch yields a non-empty body, and the parser returns \<open>us\<close>.
\<close>

definition reaches_export :: "env \<Rightarrow> world \<Rightarrow> jsval list \<Rightarrow> bool" where
  "reaches_export env w us \<longleftrightarrow>
     truthy (sitemapUrl env) \<and>
     (case axios_get env (length (requests w)) (sitemapUrl env) of
        Inl e \<Rightarrow> False
      | Inr sitemapXml \<Rightarrow>
          truthy sitemapXml \<and> fst (parseSitemapXml env sitemapXml w) = JArr us)"

text \<open>The page requests of such a run: the sitemap request comes first, then one per URL.\<close>

definition page_requests :: "world \<Rightarrow> jsval list \<Rightarrow> (nat \<times> jsval) list" where
  "page_requests w us = enumerate (Suc (length (requests w))) us"

text \<open>Neither the creation of the output directory, where needed, nor the write fails.\<close>

definition export_succeeds :: "env \<Rightarrow> world \<Rightarrow> bool" where
  "export_succeeds env w \<longleftrightarrow>
     (existsSync (outputDir env) w \<or> mkdirSync_error env (outputDir env) = None) \<and>
     writeRecords_error env (outputPath env) = None"

definition saved_line :: "env \<Rightarrow> console_call" where
  "saved_line env =
     Console_log [Lit ''Page titles extracted and saved to '', Path (outputPath env)]"

text \<open>The data rows of the CSV file that a run leaves at its output path, if any.\<close>

definition csv_rows :: "env \<Rightarrow> world \<Rightarrow> jsval list list option" where
  "csv_rows env w = map_option rows (files (main env w) (outputPath env))"

section \<open>Example sites\<close>

text \<open>
  Small concrete environments on which the statements below are evaluated. A site serves
  some bodies under some URLs; every other request is answered with status 404. The two
  tables give the element tree of each XML text and the document of each HTML text used.
\<close>

definition world0 :: world where
  "world0 = \<lparr>console = [], requests = [], directories = [], files = Map.empty\<rparr>"

definition sitemap_address :: string where
  "sitemap_address = ''https://a.test/sitemap.xml''"

definition command_line :: "string list" where
  "command_line = [''node'', ''getTitlesFromUrls.js'', sitemap_address]"

definition two_url_sitemap :: string where
  "two_url_sitemap =
     ''<urlset><url><loc>https://a.test/</loc></url><url><loc>https://a.test/b</loc></url></urlset>''"

definition url_entry :: "string \<Rightarrow> xml_node" where
  "url_entry address = Child (Element ''url'' [] [Child (Element ''loc'' [] [Text address])])"

definition xml_table :: "(string \<times> xml_element) list" where
  "xml_table =
     [(''<urlset></urlset>'', Element ''urlset'' [] []),
      (''<urlset> </urlset>'', Element ''urlset'' [] [Text '' '']),
      (two_url_sitemap,
       Element ''urlset'' [] [url_entry ''https://a.test/'', url_entry ''https://a.test/b''])]"

definition html_page :: "dom list \<Rightarrow> dom list \<Rightarrow> dom list" where
  "html_page head_nodes body_nodes =
     [DElem ''html'' [] [DElem ''head'' [] head_nodes, DElem ''body'' [] body_nodes]]"

definition html_table :: "(string \<times> dom list) list" where
  "html_table =
     [(''<title>Home</title>'', html_page [DElem ''title'' [] [DText ''Home'']] []),
      (''<title> B Page </title>'', html_page [DElem ''title'' [] [DText '' B Page '']] []),
      (''<title></title>'', html_page [DElem ''title'' [] []] []),
      (''<title> </title>'', html_page [DElem ''title'' [] [DText '' '']] []),
      (''<p>Hello</p>'', html_page [] [DElem ''p'' [] [DText ''Hello'']]),
      (''<title>Home</title><svg><title>Logo</title></svg>'',
       html_page [DElem ''title'' [] [DText ''Home'']]
         [DElem ''svg'' [] [DElem ''title'' [] [DText ''Logo'']]])]"

definition website :: "(string \<times> string) list \<Rightarrow> string list \<Rightarrow> env" where
  "website served args =
     \<lparr>argv = map JStr args,
      axios_get = (\<lambda>k u. case u of
                     JStr address \<Rightarrow>
                       (case map_of served address of
                          Some body \<Rightarrow> Inr (JStr body)
                        | None \<Rightarrow> Inl (LibraryError ''Request failed with status code 404''))
                   | _ \<Rightarrow> Inl (LibraryError ''Invalid URL'')),
      parseStringPromise = (\<lambda>x. case x of
                     JStr text \<Rightarrow>
                       (case map_of xml_table text of
                          Some doc \<Rightarrow> Inr (xml2js_document doc)
                        | None \<Rightarrow> Inl (LibraryError ''Non-whitespace before first tag.''))
                   | _ \<Rightarrow> Inl (LibraryError ''Not a string'')),
      cheerio_load = (\<lambda>d. case d of
                     JStr text \<Rightarrow>
                       (case map_of html_table text of
                          Some document \<Rightarrow> Inr document
                        | None \<Rightarrow> Inr (html_page [] [DText text]))
                   | _ \<Rightarrow> Inl (LibraryError ''Not a string'')),
      now = \<lparr>getFullYear = 2024, getMonth = 0, getDate = 5, getHours = 9, getMinutes = 30\<rparr>,
      dirname = [''app''],
      mkdirSync_error = (\<lambda>p. None),
      writeRecords_error = (\<lambda>p. None)\<rparr>"

definition home :: jsval where
  "home = JStr ''https://a.test/''"

definition page_b :: jsval where
  "page_b = JStr ''https://a.test/b''"

text \<open>A sitemap without entries, once empty and once holding a blank.\<close>

definition empty_urlset_site :: env where
  "empty_urlset_site = website [(sitemap_address, ''<urlset></urlset>'')] command_line"

definition blank_urlset_site :: env where
  "blank_urlset_site = website [(sitemap_address, ''<urlset> </urlset>'')] command_line"

text \<open>The two-page site, and variants whose first page differs.\<close>

definition first_page_site :: "string \<Rightarrow> env" where
  "first_page_site body =
     website [(sitemap_address, two_url_sitemap), (''https://a.test/'', body),
              (''https://a.test/b'', ''<title> B Page </title>'')] command_line"

definition two_page_site :: env where
  "two_page_site = first_page_site ''<title>Home</title>''"

definition first_page_down_site :: env where
  "first_page_down_site =
     website [(sitemap_address, two_url_sitemap),
              (''https://a.test/b'', ''<title> B Page </title>'')] command_line"

definition all_pages_down_site :: env where
  "all_pages_down_site = website [(sitemap_address, two_url_sitemap)] command_line"

text \<open>A site whose sitemap is missing, one whose sitemap is empty text, and a run without argument.\<close>

definition unreachable_sitemap_site :: env where
  "unreachable_sitemap_site = website [] command_line"

definition empty_body_site :: env where
  "empty_body_site = website [(sitemap_address, [])] command_line"

definition no_argument_site :: env where
  "no_argument_site = website [] [''node'', ''getTitlesFromUrls.js'']"

lemmas example_defs =
  world0_def sitemap_address_def command_line_def two_url_sitemap_def url_entry_def
  xml_table_def html_page_def html_table_def website_def home_def page_b_def
  empty_urlset_site_def blank_urlset_site_def first_page_site_def two_page_site_def
  first_page_down_site_def all_pages_down_site_def unreachable_sitemap_site_def
  empty_body_site_def no_argument_site_def

section \<open>What xml2js builds, read by property\<close>

lemma map_of_assignOrPush:
  "map_of (assignOrPush obj key v) k =
     (if k = key then Some (JArr (pushed (map_of obj key) @ [v])) else map_of obj k)"
  by (induction obj key v rule: assignOrPush.induct) (auto simp: pushed_def split: jsval.splits)

lemma map_of_xml2js_content:
  "map_of (xml2js_content ns obj) k =
     (let es = filter (\<lambda>c. tag c = k) (child_elements ns)
      in if es = [] then map_of obj k
         else Some (JArr (pushed (map_of obj k) @ map xml2js_element es)))"
proof (induction ns arbitrary: obj)
  case Nil
  then show ?case by simp
next
  case (Cons n ns)
  show ?case
  proof (cases n)
    case (Text t)
    then show ?thesis using Cons.IH by simp
  next
    case (Child e)
    then show ?thesis
      using Cons.IH [of "assignOrPush obj (tag e) (xml2js_element e)"]
      by (simp add: map_of_assignOrPush pushed_def Let_def)
  qed
qed

lemma get_prop_close_tag:
  "k \<noteq> ''_'' \<Longrightarrow>
   get_prop (close_tag text obj) k = Inr (case map_of obj k of Some v \<Rightarrow> v | None \<Rightarrow> JUndefined)"
  by (simp add: close_tag_def)

lemma map_of_open_tag: "k \<noteq> ''$'' \<Longrightarrow> map_of (open_tag attrs) k = None"
  by (simp add: open_tag_def)

text \<open>
  An element read under a tag name yields the array of its children of that name, and
  \<^verbatim>\<open>undefined\<close> when it has none.
\<close>

lemma get_prop_xml2js_element:
  assumes "k \<noteq> ''_''" "k \<noteq> ''$''"
  shows "get_prop (xml2js_element e) k =
           Inr (if children_named k e = [] then JUndefined
                else JArr (map xml2js_element (children_named k e)))"
proof (cases e)
  case (Element name attrs nodes)
  then show ?thesis
    using assms
    by (simp add: get_prop_close_tag map_of_xml2js_content map_of_open_tag
        children_named_def pushed_def Let_def)
qed

lemma xml2js_content_no_children:
  "child_elements ns = [] \<Longrightarrow> xml2js_content ns obj = obj"
proof (induction ns)
  case Nil
  then show ?case by simp
next
  case (Cons n ns)
  then show ?case by (cases n) auto
qed

lemma xml2js_element_text_only:
  "text_only l \<Longrightarrow> xml2js_element l = JStr (characters (content l))"
  by (cases l) (simp add: text_only_def xml2js_content_no_children open_tag_def close_tag_def)

lemma loc0_valid_url_entry:
  assumes "valid_url_entry u"
  shows "loc0 (xml2js_element u) = Inr (JStr (loc_text u))"
proof -
  from assms obtain l where l: "children_named ''loc'' u = [l]" "text_only l"
    by (auto simp: valid_url_entry_def split: list.splits)
  have "get_prop (xml2js_element u) ''loc'' = Inr (JArr [xml2js_element l])"
    using l by (simp add: get_prop_xml2js_element)
  then show ?thesis
    using l by (simp add: loc0_def array_index_def xml2js_element_text_only loc_text_def)
qed

lemma map_throwing_loc0:
  "list_all valid_url_entry us \<Longrightarrow>
   map_throwing loc0 (map xml2js_element us) = Inr (map (\<lambda>u. JStr (loc_text u)) us)"
  by (induction us) (simp_all add: loc0_valid_url_entry)

lemma urlArray_urlset:
  assumes "tag doc = ''urlset''"
  shows "urlArray (xml2js_document doc) =
           (if url_entries doc = [] then Inl (TypeError ''map'')
            else call_map (JArr (map xml2js_element (url_entries doc))) loc0)"
  using assms
  by (simp add: urlArray_def xml2js_document_def get_prop_xml2js_element url_entries_def)

section \<open>The sitemap parser\<close>

text \<open>
  C1 (amended). For a sitemap document whose root \<^verbatim>\<open>urlset\<close> element contains zero
  \<^verbatim>\<open>url\<close> children, \<^verbatim>\<open>parseSitemapXml\<close> returns the failure sentinel \<^verbatim>\<open>null\<close>, not
  an empty sequence: xml2js creates no \<^verbatim>\<open>url\<close> property for such a root, so calling
  \<^verbatim>\<open>map\<close> on it throws, and the \<^verbatim>\<open>catch\<close> branch logs the error and returns \<^verbatim>\<open>null\<close>.
\<close>

theorem parseSitemapXml_no_url_entries:
  assumes "parseStringPromise env xmlContent = Inr (xml2js_document doc)"
    and "tag doc = ''urlset''"
    and "url_entries doc = []"
  shows "parseSitemapXml env xmlContent w =
           (JNull, console_error [Lit ''Error parsing sitemap.xml content: '',
                                  Message (TypeError ''map'')] w)"
  using assms by (simp add: parseSitemapXml_def urlArray_urlset)

theorem parseSitemapXml_no_url_entries_witness:
  "parseStringPromise empty_urlset_site (JStr ''<urlset></urlset>'') =
     Inr (xml2js_document (Element ''urlset'' [] []))
   \<and> tag (Element ''urlset'' [] []) = ''urlset''
   \<and> url_entries (Element ''urlset'' [] []) = []
   \<and> parseSitemapXml empty_urlset_site (JStr ''<urlset></urlset>'') world0 =
       (JNull, console_error [Lit ''Error parsing sitemap.xml content: '',
                              Message (TypeError ''map'')] world0)"
proof -
  have h1: "parseStringPromise empty_urlset_site (JStr ''<urlset></urlset>'') =
              Inr (xml2js_document (Element ''urlset'' [] []))"
    by (simp add: example_defs)
  have h2: "tag (Element ''urlset'' [] []) = ''urlset''"
    by simp
  have h3: "url_entries (Element ''urlset'' [] []) = []"
    by (simp add: url_entries_def children_named_def)
  show ?thesis
    using h1 h2 h3 parseSitemapXml_no_url_entries [OF h1 h2 h3, of world0] by simp
qed

text \<open>
  C1 as stated fails on the document \<^verbatim>\<open><urlset></urlset>\<close>: the parser returns
  \<^verbatim>\<open>null\<close>, which is not the empty array.
\<close>

theorem parseSitemapXml_empty_urlset_counterexample:
  "parseStringPromise empty_urlset_site (JStr ''<urlset></urlset>'') =
     Inr (xml2js_document (Element ''urlset'' [] []))
   \<and> url_entries (Element ''urlset'' [] []) = []
   \<and> fst (parseSitemapXml empty_urlset_site (JStr ''<urlset></urlset>'') world0) = JNull
   \<and> fst (parseSitemapXml empty_urlset_site (JStr ''<urlset></urlset>'') world0) \<noteq> JArr []"
  by (simp add: example_defs parseSitemapXml_def urlArray_def xml2js_document_def open_tag_def
      close_tag_def url_entries_def children_named_def)

text \<open>
  C3 (amended). For every valid sitemap document containing N \<^verbatim>\<open>url\<close> entries with
  N at least 1, \<^verbatim>\<open>parseSitemapXml\<close> returns exactly N URL strings, the texts of the
  \<^verbatim>\<open>loc\<close> children, in the order of the entries in the document; nothing is logged.
\<close>

theorem parseSitemapXml_valid_sitemap:
  assumes "parseStringPromise env xmlContent = Inr (xml2js_document doc)"
    and "valid_sitemap doc"
    and "url_entries doc \<noteq> []"
  shows "parseSitemapXml env xmlContent w =
           (JArr (map (\<lambda>u. JStr (loc_text u)) (url_entries doc)), w)"
  using assms
  by (simp add: parseSitemapXml_def urlArray_urlset valid_sitemap_def map_throwing_loc0)

theorem parseSitemapXml_valid_sitemap_witness:
  "parseStringPromise two_page_site (JStr two_url_sitemap) =
     Inr (xml2js_document
            (Element ''urlset'' [] [url_entry ''https://a.test/'', url_entry ''https://a.test/b'']))
   \<and> valid_sitemap
        (Element ''urlset'' [] [url_entry ''https://a.test/'', url_entry ''https://a.test/b''])
   \<and> url_entries
        (Element ''urlset'' [] [url_entry ''https://a.test/'', url_entry ''https://a.test/b''])
       \<noteq> []
   \<and> parseSitemapXml two_page_site (JStr two_url_sitemap) world0 =
       (JArr [JStr ''https://a.test/'', JStr ''https://a.test/b''], world0)"
proof -
  let ?doc = "Element ''urlset'' [] [url_entry ''https://a.test/'', url_entry ''https://a.test/b'']"
  have h1: "parseStringPromise two_page_site (JStr two_url_sitemap) = Inr (xml2js_document ?doc)"
    by (simp add: example_defs)
  have e: "url_entries ?doc =
             [Element ''url'' [] [Child (Element ''loc'' [] [Text ''https://a.test/''])],
              Element ''url'' [] [Child (Element ''loc'' [] [Text ''https://a.test/b''])]]"
    by (simp add: url_entries_def children_named_def url_entry_def)
  have h2: "valid_sitemap ?doc"
    by (simp add: valid_sitemap_def e valid_url_entry_def children_named_def text_only_def)
  have h3: "url_entries ?doc \<noteq> []"
    by (simp add: e)
  have "parseSitemapXml two_page_site (JStr two_url_sitemap) world0 =
          (JArr (map (\<lambda>u. JStr (loc_text u)) (url_entries ?doc)), world0)"
    using parseSitemapXml_valid_sitemap [OF h1 h2 h3] .
  then show ?thesis
    using h1 h2 h3 by (simp add: e loc_text_def children_named_def)
qed

text \<open>
  C3 as stated fails for N = 0: the document \<^verbatim>\<open><urlset> </urlset>\<close> is a valid sitemap
  with no entries, and the parser returns \<^verbatim>\<open>null\<close> instead of an array of 0 strings.
\<close>

theorem parseSitemapXml_zero_entries_counterexample:
  "parseStringPromise blank_urlset_site (JStr ''<urlset> </urlset>'') =
     Inr (xml2js_document (Element ''urlset'' [] [Text '' '']))
   \<and> valid_sitemap (Element ''urlset'' [] [Text '' ''])
   \<and> length (url_entries (Element ''urlset'' [] [Text '' ''])) = 0
   \<and> fst (parseSitemapXml blank_urlset_site (JStr ''<urlset> </urlset>'') world0) = JNull
   \<and> fst (parseSitemapXml blank_urlset_site (JStr ''<urlset> </urlset>'') world0)
       \<noteq> JArr (map JStr [])"
  by (simp add: example_defs parseSitemapXml_def urlArray_def xml2js_document_def open_tag_def
      close_tag_def url_entries_def children_named_def valid_sitemap_def)

section \<open>One page, and the loop over the pages\<close>

lemma getPageTitle_page_title:
  "getPageTitle env u w =
     (case page_title env (length (requests w)) u of
        Inr t \<Rightarrow> (JStr t, w\<lparr>requests := requests w @ [u]\<rparr>)
      | Inl e \<Rightarrow>
          (JNull, w\<lparr>requests := requests w @ [u],
                     console := console w @ [Console_error [Lit ''Error fetching page title from '',
                                                            Val u, Lit '': '', Message e]]\<rparr>))"
  by (simp add: getPageTitle_def page_title_def axios_get_data_def console_error_def
      split: sum.splits)

lemma processUrls_loop_eq:
  "processUrls_loop env us titles w =
     (titles @ map (record_of env) (filter (title_obtained env) (enumerate (length (requests w)) us)),
      w\<lparr>requests := requests w @ us,
        console := console w
                   @ List.map_filter (page_error env) (enumerate (length (requests w)) us)\<rparr>)"
proof (induction us arbitrary: titles w)
  case Nil
  then show ?case by (simp add: List.map_filter_simps)
next
  case (Cons u us)
  show ?case
  proof (cases "page_title env (length (requests w)) u")
    case (Inl e)
    then show ?thesis
      by (simp add: getPageTitle_page_title Cons.IH List.map_filter_simps record_of_def
          title_obtained_def title_text_def page_error_def)
  next
    case (Inr t)
    then show ?thesis
      by (simp add: getPageTitle_page_title Cons.IH List.map_filter_simps record_of_def
          title_obtained_def title_text_def page_error_def)
  qed
qed

section \<open>A run that reaches the export stage\<close>

lemma parseSitemapXml_array:
  "fst (parseSitemapXml env x w) = JArr us \<Longrightarrow> parseSitemapXml env x w' = (JArr us, w')"
  by (auto simp: parseSitemapXml_def split: sum.splits)

lemma csv_row_record_of: "csv_row \<circ> record_of env = row_of env"
  by (simp add: fun_eq_iff csv_row_def record_of_def row_of_def)

lemma main_reaches_export:
  assumes "reaches_export env w us"
  shows "main env w =
     (case export env (map (record_of env) (filter (title_obtained env) (page_requests w us)))
             (w\<lparr>requests := requests w @ sitemapUrl env # us,
                console := console w @ List.map_filter (page_error env) (page_requests w us)\<rparr>) of
        (Some error, w4) \<Rightarrow> console_error [Lit ''An error occurred:'', Err error] w4
      | (None, w4) \<Rightarrow> w4)"
proof -
  from assms obtain sitemapXml where
    arg: "truthy (array_index (argv env) 2)" and
    fetch: "axios_get env (length (requests w)) (array_index (argv env) 2) = Inr sitemapXml" and
    body: "truthy sitemapXml" and
    parse: "fst (parseSitemapXml env sitemapXml w) = JArr us"
    by (auto simp: reaches_export_def sitemapUrl_def split: sum.splits)
  have f: "fetchSitemapXml env (array_index (argv env) 2) w =
             (sitemapXml, w\<lparr>requests := requests w @ [array_index (argv env) 2]\<rparr>)"
    using fetch by (simp add: fetchSitemapXml_def axios_get_data_def)
  have p: "parseSitemapXml env sitemapXml (w\<lparr>requests := requests w @ [array_index (argv env) 2]\<rparr>) =
             (JArr us, w\<lparr>requests := requests w @ [array_index (argv env) 2]\<rparr>)"
    using parse by (rule parseSitemapXml_array)
  show ?thesis
    using arg body
    by (simp add: main_def f p processUrls_def processUrls_loop_eq page_requests_def
        sitemapUrl_def)
qed

lemma main_exported:
  assumes "reaches_export env w us" and "export_succeeds env w"
  shows "main env w =
     w\<lparr>requests := requests w @ sitemapUrl env # us,
       console := console w @ List.map_filter (page_error env) (page_requests w us)
                  @ [saved_line env],
       directories := (if existsSync (outputDir env) w then directories w
                       else outputDir env # directories w),
       files := (files w)(outputPath env \<mapsto>
                  \<lparr>header = csv_header,
                   rows = map (row_of env) (filter (title_obtained env) (page_requests w us))\<rparr>)\<rparr>"
  using assms(2)
  by (auto simp: main_reaches_export [OF assms(1)] export_def export_succeeds_def existsSync_def
      mkdirSync_def writeRecords_def console_log_def saved_line_def csv_row_record_of)

lemma csv_rows_exported:
  assumes "reaches_export env w us" and "export_succeeds env w"
  shows "csv_rows env w = Some (map (row_of env) (filter (title_obtained env) (page_requests w us)))"
  by (simp add: csv_rows_def main_exported [OF assms])

section \<open>The title extractor\<close>

text \<open>
  C4 (amended). For every URL whose page is fetched and parsed successfully but whose
  document contains no \<^verbatim>\<open>title\<close> element, \<^verbatim>\<open>getPageTitle\<close> returns the empty string,
  not the failure sentinel, and logs nothing; the caller produces no record for that URL,
  because it tests the returned title for truthiness.
\<close>

theorem getPageTitle_no_title_element:
  assumes "axios_get env (length (requests w)) u = Inr data"
    and "cheerio_load env data = Inr document"
    and "cheerio_select document ''title'' = []"
  shows "getPageTitle env u w = (JStr [], w\<lparr>requests := requests w @ [u]\<rparr>)
         \<and> console (snd (getPageTitle env u w)) = console w
         \<and> fst (processUrls_loop env [u] titles w) = titles"
  using assms
  by (simp add: getPageTitle_def axios_get_data_def cheerio_text_def js_trim_def)

theorem getPageTitle_no_title_element_witness:
  "axios_get (first_page_site ''<p>Hello</p>'') (length (requests world0)) home
     = Inr (JStr ''<p>Hello</p>'')
   \<and> cheerio_load (first_page_site ''<p>Hello</p>'') (JStr ''<p>Hello</p>'')
       = Inr (html_page [] [DElem ''p'' [] [DText ''Hello'']])
   \<and> cheerio_select (html_page [] [DElem ''p'' [] [DText ''Hello'']]) ''title'' = []
   \<and> getPageTitle (first_page_site ''<p>Hello</p>'') home world0
       = (JStr [], world0\<lparr>requests := [home]\<rparr>)
   \<and> fst (processUrls_loop (first_page_site ''<p>Hello</p>'') [home] [] world0) = []"
proof -
  let ?E = "first_page_site ''<p>Hello</p>''"
  let ?D = "html_page [] [DElem ''p'' [] [DText ''Hello'']]"
  have h1: "axios_get ?E (length (requests world0)) home = Inr (JStr ''<p>Hello</p>'')"
    by (simp add: example_defs)
  have h2: "cheerio_load ?E (JStr ''<p>Hello</p>'') = Inr ?D"
    by (simp add: example_defs)
  have h3: "cheerio_select ?D ''title'' = []"
    by (simp add: html_page_def cheerio_select_def)
  have r: "requests world0 = []"
    by (simp add: world0_def)
  show ?thesis
    using h1 h2 h3 getPageTitle_no_title_element [OF h1 h2 h3, of "[]"] by (simp add: r)
qed

text \<open>
  C4 as stated fails on a page \<^verbatim>\<open><p>Hello</p>\<close>: the value returned is not
  \<^verbatim>\<open>null\<close>, and the console stays empty.
\<close>

theorem getPageTitle_no_title_counterexample:
  "axios_get (first_page_site ''<p>Hello</p>'') 0 home = Inr (JStr ''<p>Hello</p>'')
   \<and> cheerio_load (first_page_site ''<p>Hello</p>'') (JStr ''<p>Hello</p>'')
       = Inr (html_page [] [DElem ''p'' [] [DText ''Hello'']])
   \<and> cheerio_select (html_page [] [DElem ''p'' [] [DText ''Hello'']]) ''title'' = []
   \<and> fst (getPageTitle (first_page_site ''<p>Hello</p>'') home world0) \<noteq> JNull
   \<and> console (snd (getPageTitle (first_page_site ''<p>Hello</p>'') home world0)) = []"
  by (simp add: example_defs getPageTitle_def axios_get_data_def cheerio_select_def
      cheerio_text_def js_trim_def)

text \<open>
  C5. \<^verbatim>\<open>getPageTitle\<close> is to return the page title: the trimmed text of the first
  \<^verbatim>\<open>title\<close> element of the fetched document. The script does not do so on a page with
  a second \<^verbatim>\<open>title\<close> element, here inside an inline SVG image: it returns the texts
  of both, joined, \<^verbatim>\<open>HomeLogo\<close> where the page title is \<^verbatim>\<open>Home\<close>.
\<close>

theorem getPageTitle_two_title_elements:
  "axios_get (first_page_site ''<title>Home</title><svg><title>Logo</title></svg>'') 0 home
     = Inr (JStr ''<title>Home</title><svg><title>Logo</title></svg>'')
   \<and> cheerio_load (first_page_site ''<title>Home</title><svg><title>Logo</title></svg>'')
         (JStr ''<title>Home</title><svg><title>Logo</title></svg>'')
       = Inr (html_page [DElem ''title'' [] [DText ''Home'']]
                [DElem ''svg'' [] [DElem ''title'' [] [DText ''Logo'']]])
   \<and> map textContent
         (cheerio_select (html_page [DElem ''title'' [] [DText ''Home'']]
                            [DElem ''svg'' [] [DElem ''title'' [] [DText ''Logo'']]]) ''title'')
       = [''Home'', ''Logo'']
   \<and> fst (getPageTitle (first_page_site ''<title>Home</title><svg><title>Logo</title></svg>'')
             home world0)
       = JStr ''HomeLogo''"
  by (simp add: example_defs getPageTitle_def axios_get_data_def cheerio_select_def
      cheerio_text_def js_trim_def js_whitespace_def)

section \<open>The whole run\<close>

lemmas run_defs =
  reaches_export_def export_succeeds_def sitemapUrl_def array_index_def parseSitemapXml_def
  urlArray_def loc0_def xml2js_document_def open_tag_def close_tag_def existsSync_def
  outputDir_def outputPath_def path_join_def page_requests_def

lemmas page_defs =
  title_obtained_def title_text_def row_of_def page_title_def page_fetch_failed_def
  extraction_succeeded_def cheerio_select_def cheerio_text_def js_trim_def js_whitespace_def

lemma length_page_requests: "length (page_requests w us) = length us"
  by (simp add: page_requests_def)

lemma row_of_title_obtained:
  "title_obtained env p \<Longrightarrow> \<exists>t. row_of env p = [JStr t, snd p] \<and> t \<noteq> []"
  by (cases p) (auto simp: title_obtained_def row_of_def title_text_def split: sum.splits)

lemma page_fetch_failed_no_title: "page_fetch_failed env p \<Longrightarrow> \<not> title_obtained env p"
  by (cases p) (auto simp: page_fetch_failed_def title_obtained_def page_title_def split: sum.splits)

lemma filter_without_nth:
  assumes "i < length ps" and "\<not> P (ps ! i)"
  shows "filter P ps = filter P (take i ps @ drop (Suc i) ps)"
proof -
  have "ps = take i ps @ ps ! i # drop (Suc i) ps"
    using assms(1) by (rule id_take_nth_drop)
  then have "filter P ps = filter P (take i ps @ ps ! i # drop (Suc i) ps)"
    by simp
  then show ?thesis
    using assms(2) by simp
qed

lemma first_page_site_reaches_export:
  "reaches_export (first_page_site body) world0 [home, page_b]"
  by (simp add: run_defs example_defs)

lemma first_page_site_export_succeeds: "export_succeeds (first_page_site body) world0"
  by (simp add: run_defs example_defs)

lemma first_page_down_site_reaches_export:
  "reaches_export first_page_down_site world0 [home, page_b]"
  by (simp add: run_defs example_defs)

lemma all_pages_down_site_reaches_export:
  "reaches_export all_pages_down_site world0 [home, page_b]"
  by (simp add: run_defs example_defs)

text \<open>
  C2 (amended). For every run that reaches the export stage and whose export does not fail,
  the number of rows in the CSV output equals the number of sitemap URLs for which the page
  fetch succeeded and the title extracted from the page is not empty; this count is at most
  the number of URLs in the sitemap, and every row carries a non-empty title.
\<close>

theorem csv_row_count:
  assumes "reaches_export env w us" and "export_succeeds env w"
  shows "\<exists>rs. csv_rows env w = Some rs
           \<and> length rs = length (filter (title_obtained env) (page_requests w us))
           \<and> length rs \<le> length us
           \<and> (\<forall>r \<in> set rs. \<exists>t u. r = [JStr t, u] \<and> t \<noteq> [])"
proof -
  let ?ps = "filter (title_obtained env) (page_requests w us)"
  have "csv_rows env w = Some (map (row_of env) ?ps)"
    using assms by (rule csv_rows_exported)
  moreover have "length (map (row_of env) ?ps) \<le> length us"
    using length_filter_le [of "title_obtained env" "page_requests w us"]
    by (simp add: length_page_requests)
  moreover have "\<forall>r \<in> set (map (row_of env) ?ps). \<exists>t u. r = [JStr t, u] \<and> t \<noteq> []"
    using row_of_title_obtained by fastforce
  ultimately show ?thesis by simp
qed

theorem csv_row_count_witness:
  "reaches_export (first_page_site ''<title></title>'') world0 [home, page_b]
   \<and> export_succeeds (first_page_site ''<title></title>'') world0
   \<and> (\<exists>rs. csv_rows (first_page_site ''<title></title>'') world0 = Some rs
          \<and> length rs = 1 \<and> length rs \<le> length [home, page_b]
          \<and> (\<forall>r \<in> set rs. \<exists>t u. r = [JStr t, u] \<and> t \<noteq> []))"
proof -
  let ?E = "first_page_site ''<title></title>''"
  have h1: "reaches_export ?E world0 [home, page_b]"
    by (rule first_page_site_reaches_export)
  have h2: "export_succeeds ?E world0"
    by (rule first_page_site_export_succeeds)
  have n: "length (filter (title_obtained ?E) (page_requests world0 [home, page_b])) = 1"
    by (simp add: page_requests_def page_defs example_defs)
  show ?thesis
    using h1 h2 csv_row_count [OF h1 h2] by (simp add: n)
qed

text \<open>
  C2 as stated fails when a page has an empty \<^verbatim>\<open>title\<close> element. The fetch succeeds and
  the extraction succeeds with the empty string, which is not the failure sentinel; the
  loop drops the page all the same, so the file has one row for two such URLs.
\<close>

theorem csv_row_count_counterexample:
  "reaches_export (first_page_site ''<title></title>'') world0 [home, page_b]
   \<and> csv_rows (first_page_site ''<title></title>'') world0 = Some [[JStr ''B Page'', page_b]]
   \<and> length (filter (extraction_succeeded (first_page_site ''<title></title>''))
                (page_requests world0 [home, page_b])) = 2
   \<and> fst (getPageTitle (first_page_site ''<title></title>'') home
             (world0\<lparr>requests := [JStr sitemap_address]\<rparr>)) = JStr []
   \<and> map_option length (csv_rows (first_page_site ''<title></title>'') world0)
       \<noteq> Some (length (filter (extraction_succeeded (first_page_site ''<title></title>''))
                        (page_requests world0 [home, page_b])))"
proof -
  let ?E = "first_page_site ''<title></title>''"
  have h1: "reaches_export ?E world0 [home, page_b]"
    by (rule first_page_site_reaches_export)
  have h2: "export_succeeds ?E world0"
    by (rule first_page_site_export_succeeds)
  have rs: "map (row_of ?E) (filter (title_obtained ?E) (page_requests world0 [home, page_b]))
              = [[JStr ''B Page'', page_b]]"
    by (simp add: page_requests_def page_defs example_defs)
  have "csv_rows ?E world0 = Some [[JStr ''B Page'', page_b]]"
    using csv_rows_exported [OF h1 h2] by (simp only: rs)
  moreover have "length (filter (extraction_succeeded ?E) (page_requests world0 [home, page_b])) = 2"
    by (simp add: page_requests_def page_defs example_defs)
  moreover have "fst (getPageTitle ?E home (world0\<lparr>requests := [JStr sitemap_address]\<rparr>)) = JStr []"
    by (simp add: getPageTitle_def axios_get_data_def page_defs example_defs)
  ultimately show ?thesis using h1 by simp
qed

text \<open>
  C8 (amended). The CSV output has the header \<^verbatim>\<open>Page Title,URL\<close>, page title column
  first and URL column second, and its data rows appear in the order of the URLs of the
  sitemap, with exactly those URLs removed whose fetch or parse failed or whose extracted
  title is empty.
\<close>

theorem csv_header_and_row_order:
  assumes "reaches_export env w us" and "export_succeeds env w"
  shows "files (main env w) (outputPath env) =
           Some \<lparr>header = [''Page Title'', ''URL''],
                 rows = map (row_of env) (filter (title_obtained env) (page_requests w us))\<rparr>"
  by (simp add: main_exported [OF assms] csv_header_def)

theorem csv_header_and_row_order_witness:
  "reaches_export two_page_site world0 [home, page_b]
   \<and> export_succeeds two_page_site world0
   \<and> files (main two_page_site world0) [''app'', ''output'', ''page-titles-20240105-0930.csv''] =
       Some \<lparr>header = [''Page Title'', ''URL''],
             rows = [[JStr ''Home'', home], [JStr ''B Page'', page_b]]\<rparr>"
proof -
  have h1: "reaches_export two_page_site world0 [home, page_b]"
    unfolding two_page_site_def by (rule first_page_site_reaches_export)
  have h2: "export_succeeds two_page_site world0"
    unfolding two_page_site_def by (rule first_page_site_export_succeeds)
  have rs: "map (row_of two_page_site)
              (filter (title_obtained two_page_site) (page_requests world0 [home, page_b]))
            = [[JStr ''Home'', home], [JStr ''B Page'', page_b]]"
    by (simp add: page_requests_def page_defs example_defs)
  have p: "outputPath two_page_site = [''app'', ''output'', ''page-titles-20240105-0930.csv'']"
    by (simp add: outputPath_def outputDir_def path_join_def timestamp_def padStart_def
        dec.simps digit_def example_defs)
  show ?thesis
    using h1 h2 csv_header_and_row_order [OF h1 h2] by (simp only: rs p simp_thms)
qed

text \<open>
  C8 as stated fails when a page has a blank \<^verbatim>\<open>title\<close> element: neither the fetch nor
  the extraction failed, and the row of the page is missing nevertheless.
\<close>

theorem csv_removed_rows_counterexample:
  "reaches_export (first_page_site ''<title> </title>'') world0 [home, page_b]
   \<and> csv_rows (first_page_site ''<title> </title>'') world0 = Some [[JStr ''B Page'', page_b]]
   \<and> extraction_succeeded (first_page_site ''<title> </title>'') (1, home)
   \<and> fst (getPageTitle (first_page_site ''<title> </title>'') home
             (world0\<lparr>requests := [JStr sitemap_address]\<rparr>)) \<noteq> JNull
   \<and> csv_rows (first_page_site ''<title> </title>'') world0
       \<noteq> Some (map (row_of (first_page_site ''<title> </title>''))
                 (filter (extraction_succeeded (first_page_site ''<title> </title>''))
                    (page_requests world0 [home, page_b])))"
proof -
  let ?E = "first_page_site ''<title> </title>''"
  have h1: "reaches_export ?E world0 [home, page_b]"
    by (rule first_page_site_reaches_export)
  have h2: "export_succeeds ?E world0"
    by (rule first_page_site_export_succeeds)
  have rs: "map (row_of ?E) (filter (title_obtained ?E) (page_requests world0 [home, page_b]))
              = [[JStr ''B Page'', page_b]]"
    by (simp add: page_requests_def page_defs example_defs)
  have c: "csv_rows ?E world0 = Some [[JStr ''B Page'', page_b]]"
    using csv_rows_exported [OF h1 h2] by (simp only: rs)
  have s: "filter (extraction_succeeded ?E) (page_requests world0 [home, page_b])
             = [(1, home), (2, page_b)]"
    by (simp add: page_requests_def page_defs example_defs)
  have e: "extraction_succeeded ?E (1, home)"
    by (simp add: page_defs example_defs)
  have g: "fst (getPageTitle ?E home (world0\<lparr>requests := [JStr sitemap_address]\<rparr>)) \<noteq> JNull"
    by (simp add: getPageTitle_def axios_get_data_def page_defs example_defs)
  show ?thesis
    using h1 e g by (simp add: c s)
qed

text \<open>
  C7. If the fetch of a single page URL fails, only that URL is skipped and the run
  continues with the remaining URLs: every URL of the sitemap is requested, and the rows
  written are those of the other URLs. Even if every page fetch fails, the CSV file is
  still created, with zero data rows. The statement is about runs whose export does not
  fail in the file system.
\<close>

theorem page_fetch_failure_skips_one_url:
  assumes "reaches_export env w us" and "export_succeeds env w"
    and "i < length us" and "page_fetch_failed env (page_requests w us ! i)"
  shows "requests (main env w) = requests w @ sitemapUrl env # us
         \<and> files (main env w) (outputPath env) =
             Some \<lparr>header = csv_header,
                   rows = map (row_of env)
                            (filter (title_obtained env)
                               (take i (page_requests w us) @ drop (Suc i) (page_requests w us)))\<rparr>
         \<and> (list_all (page_fetch_failed env) (page_requests w us) \<longrightarrow>
              files (main env w) (outputPath env) = Some \<lparr>header = csv_header, rows = []\<rparr>)"
proof -
  have m: "files (main env w) (outputPath env) =
             Some \<lparr>header = csv_header,
                   rows = map (row_of env) (filter (title_obtained env) (page_requests w us))\<rparr>"
    and r: "requests (main env w) = requests w @ sitemapUrl env # us"
    by (simp_all add: main_exported [OF assms(1,2)])
  have "\<not> title_obtained env (page_requests w us ! i)"
    using assms(4) by (rule page_fetch_failed_no_title)
  then have one: "filter (title_obtained env) (page_requests w us) =
      filter (title_obtained env) (take i (page_requests w us) @ drop (Suc i) (page_requests w us))"
    using assms(3) by (intro filter_without_nth) (simp_all add: length_page_requests)
  have all: "filter (title_obtained env) (page_requests w us) = []"
    if "list_all (page_fetch_failed env) (page_requests w us)"
    using that page_fetch_failed_no_title [of env]
    by (auto simp: list_all_iff filter_empty_conv)
  show ?thesis
    using m r one all by simp
qed

theorem page_fetch_failure_skips_one_url_witness:
  "reaches_export first_page_down_site world0 [home, page_b]
   \<and> export_succeeds first_page_down_site world0
   \<and> 0 < length [home, page_b]
   \<and> page_fetch_failed first_page_down_site (page_requests world0 [home, page_b] ! 0)
   \<and> requests (main first_page_down_site world0) = [JStr sitemap_address, home, page_b]
   \<and> files (main first_page_down_site world0) (outputPath first_page_down_site) =
       Some \<lparr>header = csv_header, rows = [[JStr ''B Page'', page_b]]\<rparr>
   \<and> reaches_export all_pages_down_site world0 [home, page_b]
   \<and> export_succeeds all_pages_down_site world0
   \<and> list_all (page_fetch_failed all_pages_down_site) (page_requests world0 [home, page_b])
   \<and> requests (main all_pages_down_site world0) = [JStr sitemap_address, home, page_b]
   \<and> files (main all_pages_down_site world0) (outputPath all_pages_down_site) =
       Some \<lparr>header = csv_header, rows = []\<rparr>"
proof -
  let ?E = "first_page_down_site" and ?A = "all_pages_down_site"
  have h1: "reaches_export ?E world0 [home, page_b]"
    by (rule first_page_down_site_reaches_export)
  have h2: "export_succeeds ?E world0"
    by (simp add: run_defs example_defs)
  have h3: "0 < length [home, page_b]"
    by simp
  have h4: "page_fetch_failed ?E (page_requests world0 [home, page_b] ! 0)"
    by (simp add: page_requests_def page_defs example_defs)
  have a1: "reaches_export ?A world0 [home, page_b]"
    by (rule all_pages_down_site_reaches_export)
  have a2: "export_succeeds ?A world0"
    by (simp add: run_defs example_defs)
  have a4: "page_fetch_failed ?A (page_requests world0 [home, page_b] ! 0)"
    by (simp add: page_requests_def page_defs example_defs)
  have a5: "list_all (page_fetch_failed ?A) (page_requests world0 [home, page_b])"
    by (simp add: page_requests_def page_defs example_defs)
  have rs: "map (row_of ?E)
              (filter (title_obtained ?E)
                 (take 0 (page_requests world0 [home, page_b])
                  @ drop (Suc 0) (page_requests world0 [home, page_b])))
            = [[JStr ''B Page'', page_b]]"
    by (simp add: page_requests_def page_defs example_defs)
  have q: "requests world0 @ sitemapUrl ?E # [home, page_b] = [JStr sitemap_address, home, page_b]"
    "requests world0 @ sitemapUrl ?A # [home, page_b] = [JStr sitemap_address, home, page_b]"
    by (simp_all add: sitemapUrl_def array_index_def example_defs)
  note f = page_fetch_failure_skips_one_url [OF h1 h2 h3 h4]
  note g = page_fetch_failure_skips_one_url [OF a1 a2 h3 a4]
  have f1: "requests (main ?E world0) = [JStr sitemap_address, home, page_b]"
    using f by (simp only: q)
  have f2: "files (main ?E world0) (outputPath ?E) =
              Some \<lparr>header = csv_header, rows = [[JStr ''B Page'', page_b]]\<rparr>"
    using f by (simp only: rs)
  have g1: "requests (main ?A world0) = [JStr sitemap_address, home, page_b]"
    using g by (simp only: q)
  have g2: "files (main ?A world0) (outputPath ?A) = Some \<lparr>header = csv_header, rows = []\<rparr>"
    using g a5 by blast
  show ?thesis
    using h1 h2 h3 h4 a1 a2 a5 f1 f2 g1 g2 by blast
qed

text \<open>
  C6. If fetching the sitemap URL itself fails, the run aborts at once: the sitemap request
  is the only request made, so no page title is extracted, no file or directory is
  created, and two error lines are printed.
\<close>

theorem sitemap_fetch_failure_aborts:
  assumes "truthy (sitemapUrl env)"
    and "axios_get env (length (requests w)) (sitemapUrl env) = Inl e"
  shows "main env w =
           w\<lparr>requests := requests w @ [sitemapUrl env],
             console := console w
               @ [Console_error [Lit ''Error fetching sitemap.xml from '', Val (sitemapUrl env),
                                 Lit '': '', Message e],
                  Console_error
                    [Lit ''Could not fetch sitemap.xml content from the provided URL.'']]\<rparr>
         \<and> requests (main env w) = requests w @ [sitemapUrl env]
         \<and> files (main env w) = files w
         \<and> directories (main env w) = directories w"
  using assms
  by (simp add: main_def Let_def sitemapUrl_def fetchSitemapXml_def axios_get_data_def
      console_error_def)

theorem sitemap_fetch_failure_aborts_witness:
  "truthy (sitemapUrl unreachable_sitemap_site)
   \<and> axios_get unreachable_sitemap_site (length (requests world0))
        (sitemapUrl unreachable_sitemap_site)
       = Inl (LibraryError ''Request failed with status code 404'')
   \<and> main unreachable_sitemap_site world0 =
       world0\<lparr>requests := [JStr sitemap_address],
              console :=
                [Console_error [Lit ''Error fetching sitemap.xml from '', Val (JStr sitemap_address),
                                Lit '': '',
                                Message (LibraryError ''Request failed with status code 404'')],
                 Console_error
                   [Lit ''Could not fetch sitemap.xml content from the provided URL.'']]\<rparr>
   \<and> files (main unreachable_sitemap_site world0) = Map.empty"
proof -
  let ?E = "unreachable_sitemap_site"
  have u: "sitemapUrl ?E = JStr sitemap_address"
    by (simp add: sitemapUrl_def array_index_def example_defs)
  have h1: "truthy (sitemapUrl ?E)"
    by (simp add: u sitemap_address_def)
  have h2: "axios_get ?E (length (requests world0)) (sitemapUrl ?E)
              = Inl (LibraryError ''Request failed with status code 404'')"
    by (simp add: u) (simp add: example_defs)
  have w: "requests world0 = []" "console world0 = []" "files world0 = Map.empty"
    by (simp_all add: world0_def)
  show ?thesis
    using h1 h2 sitemap_fetch_failure_aborts [OF h1 h2] by (simp add: u w)
qed

text \<open>
  C9. When the program is invoked without a command-line argument for the sitemap URL, it
  prints an error message and returns: no request is made, neither for the sitemap nor for
  a page, and no output file is written.
\<close>

theorem no_argument_exits_early:
  assumes "length (argv env) \<le> 2"
  shows "main env w =
           console_error [Lit ''Please provide a sitemap.xml URL as a command-line argument.''] w
         \<and> requests (main env w) = requests w
         \<and> files (main env w) = files w
         \<and> directories (main env w) = directories w"
  using assms by (simp add: main_def Let_def array_index_def console_error_def)

theorem no_argument_exits_early_witness:
  "length (argv no_argument_site) \<le> 2
   \<and> main no_argument_site world0 =
       world0\<lparr>console := [Console_error
                 [Lit ''Please provide a sitemap.xml URL as a command-line argument.'']]\<rparr>
   \<and> requests (main no_argument_site world0) = []
   \<and> files (main no_argument_site world0) = Map.empty"
proof -
  have h: "length (argv no_argument_site) \<le> 2"
    by (simp add: example_defs)
  show ?thesis
    using h no_argument_exits_early [OF h, of world0]
    by (simp add: console_error_def world0_def)
qed

text \<open>
  C10 (amended). If the request for the sitemap succeeds with an empty body, the driver
  treats the empty string as it treats the failure sentinel: it reports that the sitemap
  could not be fetched and stops, with no page requested and no file written. Such a run
  differs from a run whose sitemap fetch failed in one respect: the line
  \<^verbatim>\<open>Error fetching sitemap.xml from ...\<close>, printed by \<^verbatim>\<open>fetchSitemapXml\<close> on a
  failure, is absent.
\<close>

theorem empty_sitemap_body_aborts:
  assumes "truthy (sitemapUrl env)"
    and "axios_get env (length (requests w)) (sitemapUrl env) = Inr (JStr [])"
    and "argv env' = argv env"
    and "axios_get env' (length (requests w)) (sitemapUrl env') = Inl e"
  shows "main env w =
           w\<lparr>requests := requests w @ [sitemapUrl env],
             console := console w
               @ [Console_error
                    [Lit ''Could not fetch sitemap.xml content from the provided URL.'']]\<rparr>
         \<and> requests (main env' w) = requests (main env w)
         \<and> files (main env' w) = files w \<and> files (main env w) = files w
         \<and> directories (main env' w) = directories w \<and> directories (main env w) = directories w
         \<and> console (main env' w) =
             console w
             @ [Console_error [Lit ''Error fetching sitemap.xml from '', Val (sitemapUrl env),
                               Lit '': '', Message e],
                Console_error
                  [Lit ''Could not fetch sitemap.xml content from the provided URL.'']]"
  using assms
  by (simp add: main_def Let_def sitemapUrl_def fetchSitemapXml_def axios_get_data_def
      console_error_def)

theorem empty_sitemap_body_aborts_witness:
  "truthy (sitemapUrl empty_body_site)
   \<and> axios_get empty_body_site (length (requests world0)) (sitemapUrl empty_body_site)
       = Inr (JStr [])
   \<and> argv unreachable_sitemap_site = argv empty_body_site
   \<and> axios_get unreachable_sitemap_site (length (requests world0))
        (sitemapUrl unreachable_sitemap_site)
       = Inl (LibraryError ''Request failed with status code 404'')
   \<and> main empty_body_site world0 =
       world0\<lparr>requests := [JStr sitemap_address],
              console := [Console_error
                 [Lit ''Could not fetch sitemap.xml content from the provided URL.'']]\<rparr>
   \<and> files (main empty_body_site world0) = Map.empty
   \<and> files (main unreachable_sitemap_site world0) = Map.empty"
proof -
  let ?E = "empty_body_site" and ?F = "unreachable_sitemap_site"
  have u: "sitemapUrl ?E = JStr sitemap_address" "sitemapUrl ?F = JStr sitemap_address"
    by (simp_all add: sitemapUrl_def array_index_def example_defs)
  have h1: "truthy (sitemapUrl ?E)"
    by (simp add: u sitemap_address_def)
  have h2: "axios_get ?E (length (requests world0)) (sitemapUrl ?E) = Inr (JStr [])"
    by (simp add: u) (simp add: example_defs)
  have h3: "argv ?F = argv ?E"
    by (simp add: example_defs)
  have h4: "axios_get ?F (length (requests world0)) (sitemapUrl ?F)
              = Inl (LibraryError ''Request failed with status code 404'')"
    by (simp add: u) (simp add: example_defs)
  have w: "requests world0 = []" "console world0 = []" "files world0 = Map.empty"
    by (simp_all add: world0_def)
  show ?thesis
    using h1 h2 h3 h4 empty_sitemap_body_aborts [OF h1 h2 h3 h4] by (simp add: u w)
qed

text \<open>
  C10 as stated fails: the two runs are told apart by what they print on standard error.
\<close>

theorem empty_sitemap_body_counterexample:
  "axios_get empty_body_site 0 (JStr sitemap_address) = Inr (JStr [])
   \<and> axios_get unreachable_sitemap_site 0 (JStr sitemap_address)
       = Inl (LibraryError ''Request failed with status code 404'')
   \<and> console (main empty_body_site world0) =
       [Console_error [Lit ''Could not fetch sitemap.xml content from the provided URL.'']]
   \<and> console (main unreachable_sitemap_site world0) =
       [Console_error [Lit ''Error fetching sitemap.xml from '', Val (JStr sitemap_address),
                       Lit '': '', Message (LibraryError ''Request failed with status code 404'')],
        Console_error [Lit ''Could not fetch sitemap.xml content from the provided URL.'']]
   \<and> console (main empty_body_site world0) \<noteq> console (main unreachable_sitemap_site world0)"
  by (simp add: main_def Let_def fetchSitemapXml_def axios_get_data_def console_error_def
      array_index_def example_defs)

end
